theory Spec2Isabelle
  imports Main "HOL-Library.Word"
begin

section \<open>Python values, exceptions and the collaborators of beem/memo.py\<close>

text \<open>
  The values that flow through \<^verbatim>\<open>Memo.encrypt\<close> and \<^verbatim>\<open>Memo.decrypt\<close>: \<^verbatim>\<open>None\<close>,
  strings, lists and dictionaries with string keys (the memo envelope). A dictionary is
  an association list; a lookup takes the first entry of a key.
\<close>

datatype pyval =
    PyNone
  | PyStr string
  | PyList "pyval list"
  | PyDict "(string \<times> pyval) list"

text \<open>Python truthiness, as tested by \<^verbatim>\<open>if not memo\<close> and \<^verbatim>\<open>if not memo_wif\<close>.\<close>

fun truthy :: "pyval \<Rightarrow> bool" where
  "truthy PyNone = False"
| "truthy (PyStr s) = (s \<noteq> [])"
| "truthy (PyList xs) = (xs \<noteq> [])"
| "truthy (PyDict d) = (d \<noteq> [])"

text \<open>
  The exceptions that can leave the two methods. \<^verbatim>\<open>MissingKeyError\<close> keeps its message as
  the format string and the values formatted into it. \<open>Other\<close> stands for any exception
  class of a collaborator that memo.py does not name (the codec's integrity and format
  errors, a locked wallet), by its class name.
\<close>

datatype exn =
    KeyNotFound
  | MissingKeyError string "pyval list"
  | KeyError string
  | AttributeError string
  | TypeError
  | Other string

text \<open>\<^verbatim>\<open>memo[key]\<close>: a dictionary raises KeyError on a missing key; a string or a list
  cannot be indexed by a string.\<close>

fun getitem :: "pyval \<Rightarrow> string \<Rightarrow> exn + pyval" where
  "getitem (PyDict d) k = (case map_of d k of None \<Rightarrow> Inl (KeyError k) | Some v \<Rightarrow> Inr v)"
| "getitem PyNone k = Inl TypeError"
| "getitem (PyStr s) k = Inl TypeError"
| "getitem (PyList xs) k = Inl TypeError"

text \<open>\<^verbatim>\<open>memo.get(key)\<close>: None for a missing key; only dictionaries have the method.\<close>

fun py_get :: "pyval \<Rightarrow> string \<Rightarrow> exn + pyval" where
  "py_get (PyDict d) k = (case map_of d k of None \<Rightarrow> Inr PyNone | Some v \<Rightarrow> Inr v)"
| "py_get PyNone k = Inl (AttributeError ''get'')"
| "py_get (PyStr s) k = Inl (AttributeError ''get'')"
| "py_get (PyList xs) k = Inl (AttributeError ''get'')"

text \<open>\<^verbatim>\<open>str(n)\<close> of a Python integer: its decimal digits, with a sign when negative.\<close>

definition digit_char :: "nat \<Rightarrow> char" where
  "digit_char d = ''0123456789'' ! d"

fun digits :: "nat \<Rightarrow> string" where
  "digits n = (if n < 10 then [digit_char n] else digits (n div 10) @ [digit_char (n mod 10)])"

declare digits.simps [simp del]

definition str :: "int \<Rightarrow> string" where
  "str n = (if n < 0 then CHR ''-'' # digits (nat (- n)) else digits (nat n))"

text \<open>
  An \<^verbatim>\<open>Account\<close> is read at two keys only, \<^verbatim>\<open>"name"\<close> and \<^verbatim>\<open>"memo_key"\<close>. The wallet
  is the key store: \<^verbatim>\<open>getPrivateKeyForPublicKey\<close> returns a value (possibly a falsy one)
  or raises. A Steem instance carries the wallet and the address prefix.
\<close>

record account =
  name :: string
  memo_key :: string

record wallet =
  getPrivateKeyForPublicKey :: "pyval \<Rightarrow> exn + pyval"

record steem =
  wallet :: wallet
  prefix :: string

text \<open>
  The \<^verbatim>\<open>Memo\<close> object. \<^verbatim>\<open>__init__\<close> assigns \<^verbatim>\<open>to_account\<close> and \<^verbatim>\<open>from_account\<close> under
  a condition, so each attribute may be unset (\<open>None\<close> here); reading an unset attribute
  raises AttributeError.
\<close>

record memo =
  steem :: steem
  to_account :: "account option"
  from_account :: "account option"

text \<open>
  The names memo.py imports and calls: the shared Steem instance, the \<^verbatim>\<open>Account\<close>
  constructor, \<^verbatim>\<open>random.getrandbits(64)\<close> (a step of the generator's state \<open>'r\<close> that
  yields 64 bits), the key constructors of beembase.account and the codec of
  beembase.memo. They are parameters of the model: each may return or raise.
\<close>

record ('sk, 'pk, 'r) env =
  shared_steem_instance :: steem
  Account :: "pyval \<Rightarrow> steem \<Rightarrow> exn + account"
  getrandbits64 :: "'r \<Rightarrow> 64 word \<times> 'r"
  PrivateKey :: "pyval \<Rightarrow> exn + 'sk"
  PublicKey :: "pyval \<Rightarrow> string \<Rightarrow> exn + 'pk"
  encode_memo :: "'sk \<Rightarrow> 'pk \<Rightarrow> pyval \<Rightarrow> pyval \<Rightarrow> exn + pyval"
  decode_memo :: "'sk \<Rightarrow> 'pk \<Rightarrow> pyval \<Rightarrow> pyval \<Rightarrow> exn + pyval"

text \<open>
  What a call does besides returning: it draws from the random generator, queries the
  key store for a public key, and calls the codec. The trace records these in order.
  The state threaded through a call is the Memo object, the generator and the trace.
\<close>

datatype event = RandBits | Lookup pyval | Encode | Decode

record 'r state =
  obj :: memo
  rng :: 'r
  trace :: "event list"

definition emit :: "event \<Rightarrow> 'r state \<Rightarrow> 'r state" where
  "emit ev s = s\<lparr>trace := trace s @ [ev]\<rparr>"

definition lookup :: "'r state \<Rightarrow> pyval \<Rightarrow> exn + pyval" where
  "lookup s pub = getPrivateKeyForPublicKey (wallet (steem (obj s))) pub"

definition lookups :: "event list \<Rightarrow> pyval list" where
  "lookups tr = concat (map (\<lambda>ev. case ev of Lookup k \<Rightarrow> [k] | _ \<Rightarrow> []) tr)"

section \<open>The Memo class\<close>

text \<open>
  \<^verbatim>\<open>Memo.__init__\<close> (lines 142-154): \<^verbatim>\<open>steem_instance or shared_steem_instance()\<close>,
  then \<^verbatim>\<open>to_account\<close> and \<^verbatim>\<open>from_account\<close>, in this order, each only when its argument
  is truthy.
\<close>

definition Memo_init ::
  "('sk, 'pk, 'r) env \<Rightarrow> pyval \<Rightarrow> pyval \<Rightarrow> steem option \<Rightarrow> exn + memo" where
  "Memo_init E from_arg to_arg steem_instance =
     (let st = (case steem_instance of Some x \<Rightarrow> x | None \<Rightarrow> shared_steem_instance E) in
      case (if truthy to_arg
            then (case Account E to_arg st of Inl e \<Rightarrow> Inl e | Inr a \<Rightarrow> Inr (Some a))
            else Inr None) of
        Inl e \<Rightarrow> Inl e
      | Inr ta \<Rightarrow>
          (case (if truthy from_arg
                 then (case Account E from_arg st of Inl e \<Rightarrow> Inl e | Inr a \<Rightarrow> Inr (Some a))
                 else Inr None) of
             Inl e \<Rightarrow> Inl e
           | Inr fa \<Rightarrow> Inr \<lparr>steem = st, to_account = ta, from_account = fa\<rparr>))"

text \<open>
  \<^verbatim>\<open>Memo.encrypt\<close> (lines 162-194). The arguments of \<^verbatim>\<open>encode_memo\<close> are evaluated left
  to right: \<^verbatim>\<open>PrivateKey(memo_wif)\<close> before \<^verbatim>\<open>self.to_account\<close> is read.
\<close>

definition encrypt ::
  "('sk, 'pk, 'r) env \<Rightarrow> pyval \<Rightarrow> 'r state \<Rightarrow> (exn + pyval) \<times> 'r state" where
  "encrypt E memo s =
     (if \<not> truthy memo then (Inr PyNone, s)
      else
        let (bits, r') = getrandbits64 E (rng s);
            nonce = PyStr (str (uint bits));
            s1 = emit RandBits (s\<lparr>rng := r'\<rparr>)
        in case from_account (obj s1) of
             None \<Rightarrow> (Inl (AttributeError ''from_account''), s1)
           | Some fa \<Rightarrow>
               let s2 = emit (Lookup (PyStr (memo_key fa))) s1 in
               (case lookup s1 (PyStr (memo_key fa)) of
                  Inl e \<Rightarrow> (Inl e, s2)
                | Inr memo_wif \<Rightarrow>
                    if \<not> truthy memo_wif
                    then (Inl (MissingKeyError ''Memo key for %s missing!'' [PyStr (name fa)]), s2)
                    else
                      (case PrivateKey E memo_wif of
                         Inl e \<Rightarrow> (Inl e, s2)
                       | Inr sk \<Rightarrow>
                           (case to_account (obj s2) of
                              None \<Rightarrow> (Inl (AttributeError ''to_account''), s2)
                            | Some ta \<Rightarrow>
                                (case PublicKey E (PyStr (memo_key ta)) (prefix (steem (obj s2))) of
                                   Inl e \<Rightarrow> (Inl e, s2)
                                 | Inr pk \<Rightarrow>
                                     let s3 = emit Encode s2 in
                                     (case encode_memo E sk pk nonce memo of
                                        Inl e \<Rightarrow> (Inl e, s3)
                                      | Inr enc \<Rightarrow>
                                          (Inr (PyDict [(''message'', enc),
                                                        (''nonce'', nonce),
                                                        (''from'', PyStr (memo_key fa)),
                                                        (''to'', PyStr (memo_key ta))]),
                                           s3)))))))"

text \<open>
  The \<^verbatim>\<open>try\<close> statement of \<^verbatim>\<open>Memo.decrypt\<close> (lines 207-224), which binds \<^verbatim>\<open>memo_wif\<close>
  and \<^verbatim>\<open>pubkey\<close>. Only KeyNotFound is caught; \<^verbatim>\<open>pubkey = memo["from"]\<close> is inside the
  \<^verbatim>\<open>try\<close>, after the first lookup. The message of the MissingKeyError is the two
  adjacent literals, joined, formatted with the list \<^verbatim>\<open>[memo["to"], memo["from"]]\<close>.
\<close>

definition resolve :: "pyval \<Rightarrow> 'r state \<Rightarrow> (exn + pyval \<times> pyval) \<times> 'r state" where
  "resolve memo s =
     (case getitem memo ''to'' of
        Inl e \<Rightarrow> (Inl e, s)
      | Inr t \<Rightarrow>
          let s1 = emit (Lookup t) s in
          (case lookup s t of
             Inr memo_wif \<Rightarrow>
               (case getitem memo ''from'' of
                  Inl e \<Rightarrow> (Inl e, s1)
                | Inr pubkey \<Rightarrow> (Inr (memo_wif, pubkey), s1))
           | Inl e \<Rightarrow>
               if e \<noteq> KeyNotFound then (Inl e, s1)
               else
                 (case getitem memo ''from'' of
                    Inl e' \<Rightarrow> (Inl e', s1)
                  | Inr f \<Rightarrow>
                      let s2 = emit (Lookup f) s1 in
                      (case lookup s1 f of
                         Inr memo_wif \<Rightarrow>
                           (case getitem memo ''to'' of
                              Inl e' \<Rightarrow> (Inl e', s2)
                            | Inr pubkey \<Rightarrow> (Inr (memo_wif, pubkey), s2))
                       | Inl e' \<Rightarrow>
                           if e' \<noteq> KeyNotFound then (Inl e', s2)
                           else
                             (case getitem memo ''to'' of
                                Inl e'' \<Rightarrow> (Inl e'', s2)
                              | Inr t' \<Rightarrow>
                                  (case getitem memo ''from'' of
                                     Inl e'' \<Rightarrow> (Inl e'', s2)
                                   | Inr f' \<Rightarrow>
                                       (Inl (MissingKeyError
                                               ''Non of the required memo keys are installed!Need any of {}''
                                               [PyList [t', f']]),
                                        s2)))))))"

text \<open>
  The \<^verbatim>\<open>return\<close> statement of \<^verbatim>\<open>Memo.decrypt\<close> (lines 226-231), which stands after
  the \<^verbatim>\<open>try\<close> statement and outside it: the two key constructors, the two \<^verbatim>\<open>.get\<close>
  reads, then the codec.
\<close>

definition decode_resolved ::
  "('sk, 'pk, 'r) env \<Rightarrow> pyval \<Rightarrow> pyval \<Rightarrow> pyval \<Rightarrow> 'r state \<Rightarrow> (exn + pyval) \<times> 'r state" where
  "decode_resolved E memo memo_wif pubkey s =
     (case PrivateKey E memo_wif of
        Inl e \<Rightarrow> (Inl e, s)
      | Inr sk \<Rightarrow>
          (case PublicKey E pubkey (prefix (steem (obj s))) of
             Inl e \<Rightarrow> (Inl e, s)
           | Inr pk \<Rightarrow>
               (case py_get memo ''nonce'' of
                  Inl e \<Rightarrow> (Inl e, s)
                | Inr nonce \<Rightarrow>
                    (case py_get memo ''message'' of
                       Inl e \<Rightarrow> (Inl e, s)
                     | Inr message \<Rightarrow> (decode_memo E sk pk nonce message, emit Decode s)))))"

text \<open>\<^verbatim>\<open>Memo.decrypt\<close> (lines 196-231): the emptiness test, the \<^verbatim>\<open>try\<close> statement, the
  \<^verbatim>\<open>return\<close> statement.\<close>

definition decrypt ::
  "('sk, 'pk, 'r) env \<Rightarrow> pyval \<Rightarrow> 'r state \<Rightarrow> (exn + pyval) \<times> 'r state" where
  "decrypt E memo s =
     (if \<not> truthy memo then (Inr PyNone, s)
      else
        (case resolve memo s of
           (Inl e, s1) \<Rightarrow> (Inl e, s1)
         | (Inr (memo_wif, pubkey), s1) \<Rightarrow> decode_resolved E memo memo_wif pubkey s1))"

section \<open>Conditions on the collaborators\<close>

text \<open>A call of a collaborator that raises MissingKeyError itself.\<close>

definition is_MissingKeyError :: "exn + 'a \<Rightarrow> bool" where
  "is_MissingKeyError r = (case r of Inl (MissingKeyError m a) \<Rightarrow> True | _ \<Rightarrow> False)"

text \<open>
  Modelled from the spec: the key store (beem.wallet), the key constructors
  (beembase.account) and the codec (beembase.memo) are not among the sources. The spec gives
  them failures of their own, KeyNotFound for the key store and integrity and format
  errors for the codec: none of them raises the MissingKeyError of memo.py.
\<close>

definition no_foreign_MissingKeyError :: "('sk, 'pk, 'r) env \<Rightarrow> 'r state \<Rightarrow> bool" where
  "no_foreign_MissingKeyError E s \<longleftrightarrow>
     (\<forall>k. \<not> is_MissingKeyError (lookup s k)) \<and>
     (\<forall>w. \<not> is_MissingKeyError (PrivateKey E w)) \<and>
     (\<forall>p x. \<not> is_MissingKeyError (PublicKey E p x)) \<and>
     (\<forall>sk pk n c. \<not> is_MissingKeyError (decode_memo E sk pk n c))"

section \<open>Test doubles for the collaborators\<close>

text \<open>
  A small concrete world on which the theorems are exercised: two accounts, key stores
  that hold one memo key, both, none, answer None for a key they miss, or are locked,
  envelopes, and a codec over toy keys. A private key
  and a public key are numbers, the shared secret of a private and a public key is their
  product, and a ciphertext carries the secret and the nonce it was made with.
\<close>

definition alice :: account where
  "alice = \<lparr>name = ''alice'', memo_key = ''STMa''\<rparr>"

definition bob :: account where
  "bob = \<lparr>name = ''bob'', memo_key = ''STMb''\<rparr>"

definition keys_alice :: "pyval \<Rightarrow> exn + pyval" where
  "keys_alice k = (if k = PyStr ''STMa'' then Inr (PyStr ''5Ja'') else Inl KeyNotFound)"

definition keys_bob :: "pyval \<Rightarrow> exn + pyval" where
  "keys_bob k = (if k = PyStr ''STMb'' then Inr (PyStr ''5Jb'') else Inl KeyNotFound)"

definition keys_none :: "pyval \<Rightarrow> exn + pyval" where
  "keys_none k = Inl KeyNotFound"

definition keys_answer_None :: "pyval \<Rightarrow> exn + pyval" where
  "keys_answer_None k = Inr PyNone"

definition toy_steem :: "(pyval \<Rightarrow> exn + pyval) \<Rightarrow> steem" where
  "toy_steem ks = \<lparr>wallet = \<lparr>getPrivateKeyForPublicKey = ks\<rparr>, prefix = ''STM''\<rparr>"

definition toy_Account :: "pyval \<Rightarrow> steem \<Rightarrow> exn + account" where
  "toy_Account n st =
     (if n = PyStr ''alice'' then Inr alice
      else if n = PyStr ''bob'' then Inr bob
      else Inl (Other ''AccountDoesNotExistsException''))"

definition toy_PrivateKey :: "pyval \<Rightarrow> exn + nat" where
  "toy_PrivateKey w =
     (if w = PyStr ''5Ja'' then Inr 3
      else if w = PyStr ''5Jb'' then Inr 5
      else Inl (Other ''ValueError''))"

definition toy_PublicKey :: "pyval \<Rightarrow> string \<Rightarrow> exn + nat" where
  "toy_PublicKey p pfx =
     (if p = PyStr ''STMa'' then Inr 3
      else if p = PyStr ''STMb'' then Inr 5
      else Inl (Other ''ValueError''))"

definition toy_encode :: "nat \<Rightarrow> nat \<Rightarrow> pyval \<Rightarrow> pyval \<Rightarrow> exn + pyval" where
  "toy_encode sk pk nonce m = Inr (PyList [PyStr (str (int (sk * pk))), nonce, m])"

definition toy_decode :: "nat \<Rightarrow> nat \<Rightarrow> pyval \<Rightarrow> pyval \<Rightarrow> exn + pyval" where
  "toy_decode sk pk nonce c =
     (case c of
        PyList [PyStr tag, n, m] \<Rightarrow>
          if tag = str (int (sk * pk)) \<and> n = nonce then Inr m
          else Inl (Other ''IntegrityError'')
      | _ \<Rightarrow> Inl (Other ''FormatError''))"

definition toy_env :: "(nat, nat, nat) env" where
  "toy_env =
     \<lparr>shared_steem_instance = toy_steem keys_none,
      Account = toy_Account,
      getrandbits64 = (\<lambda>r. (word_of_nat r, Suc r)),
      PrivateKey = toy_PrivateKey,
      PublicKey = toy_PublicKey,
      encode_memo = toy_encode,
      decode_memo = toy_decode\<rparr>"

definition toy_state :: "(pyval \<Rightarrow> exn + pyval) \<Rightarrow> account option \<Rightarrow> account option \<Rightarrow> nat state" where
  "toy_state ks fa ta =
     \<lparr>obj = \<lparr>steem = toy_steem ks, to_account = ta, from_account = fa\<rparr>,
      rng = 17329630356955254641,
      trace = []\<rparr>"

definition foobar_envelope :: pyval where
  "foobar_envelope =
     PyDict [(''message'', PyList [PyStr ''15'', PyStr ''17329630356955254641'', PyStr ''foobar'']),
             (''nonce'', PyStr ''17329630356955254641''),
             (''from'', PyStr ''STMa''),
             (''to'', PyStr ''STMb'')]"

definition keys_alice_answer_None :: "pyval \<Rightarrow> exn + pyval" where
  "keys_alice_answer_None k = (if k = PyStr ''STMa'' then Inr (PyStr ''5Ja'') else Inr PyNone)"

definition keys_locked :: "pyval \<Rightarrow> exn + pyval" where
  "keys_locked k = Inl (Other ''WalletLocked'')"

definition keys_both :: "pyval \<Rightarrow> exn + pyval" where
  "keys_both k =
     (if k = PyStr ''STMa'' then Inr (PyStr ''5Ja'')
      else if k = PyStr ''STMb'' then Inr (PyStr ''5Jb'')
      else Inl KeyNotFound)"

definition tampered_envelope :: pyval where
  "tampered_envelope =
     PyDict [(''message'', PyList [PyStr ''16'', PyStr ''17329630356955254641'', PyStr ''foobar'']),
             (''nonce'', PyStr ''17329630356955254641''),
             (''from'', PyStr ''STMa''),
             (''to'', PyStr ''STMb'')]"

definition envelope_without_to :: pyval where
  "envelope_without_to =
     PyDict [(''message'', PyList [PyStr ''15'', PyStr ''17329630356955254641'', PyStr ''foobar'']),
             (''nonce'', PyStr ''17329630356955254641''),
             (''from'', PyStr ''STMa'')]"

definition envelope_without_from :: pyval where
  "envelope_without_from =
     PyDict [(''message'', PyList [PyStr ''15'', PyStr ''17329630356955254641'', PyStr ''foobar'']),
             (''nonce'', PyStr ''17329630356955254641''),
             (''to'', PyStr ''STMb'')]"

definition envelope_keys_only :: pyval where
  "envelope_keys_only = PyDict [(''from'', PyStr ''STMa''), (''to'', PyStr ''STMb'')]"

section \<open>Facts about the trace and the frame\<close>

lemma lookup_emit [simp]: "lookup (emit ev s) k = lookup s k"
  by (simp add: lookup_def emit_def)

lemma lookup_rng_update [simp]: "lookup (s\<lparr>rng := r\<rparr>) k = lookup s k"
  by (simp add: lookup_def)

lemma obj_emit [simp]: "obj (emit ev s) = obj s"
  by (simp add: emit_def)

lemma rng_emit [simp]: "rng (emit ev s) = rng s"
  by (simp add: emit_def)

lemma trace_emit [simp]: "trace (emit ev s) = trace s @ [ev]"
  by (simp add: emit_def)

lemma lookups_append [simp]: "lookups (a @ b) = lookups a @ lookups b"
  by (simp add: lookups_def)

lemma lookups_Nil [simp]: "lookups [] = []"
  by (simp add: lookups_def)

lemma lookups_Cons [simp]:
  "lookups (ev # tr) = (case ev of Lookup k \<Rightarrow> k # lookups tr | _ \<Rightarrow> lookups tr)"
  by (cases ev) (simp_all add: lookups_def)

lemmas toy_defs = toy_env_def toy_state_def toy_steem_def toy_Account_def toy_PrivateKey_def
  toy_PublicKey_def toy_encode_def toy_decode_def keys_alice_def keys_bob_def keys_none_def
  keys_answer_None_def keys_alice_answer_None_def keys_locked_def keys_both_def alice_def bob_def lookup_def emit_def
  Let_def str_def digit_char_def digits.simps

lemma encrypt_obj: "obj (snd (encrypt E memo s)) = obj s"
  by (simp add: encrypt_def Let_def split: prod.splits option.splits sum.splits)

lemma resolve_obj: "obj (snd (resolve memo s)) = obj s"
  by (simp add: resolve_def Let_def split: sum.splits)

lemma resolve_rng: "rng (snd (resolve memo s)) = rng s"
  by (simp add: resolve_def Let_def split: sum.splits)

lemma decode_resolved_obj: "obj (snd (decode_resolved E memo w p s)) = obj s"
  by (simp add: decode_resolved_def split: sum.splits)

lemma decode_resolved_rng: "rng (snd (decode_resolved E memo w p s)) = rng s"
  by (simp add: decode_resolved_def split: sum.splits)

lemma decode_resolved_lookups:
  "lookups (trace (snd (decode_resolved E memo w p s))) = lookups (trace s)"
  by (simp add: decode_resolved_def split: sum.splits)

lemma decrypt_obj: "obj (snd (decrypt E memo s)) = obj s"
proof (cases "resolve memo s")
  case (Pair r s1)
  then have "obj s1 = obj s"
    using resolve_obj [of memo s] by simp
  with Pair show ?thesis
    by (cases r) (auto simp: decrypt_def decode_resolved_obj)
qed

lemma decrypt_rng: "rng (snd (decrypt E memo s)) = rng s"
proof (cases "resolve memo s")
  case (Pair r s1)
  then have "rng s1 = rng s"
    using resolve_rng [of memo s] by simp
  with Pair show ?thesis
    by (cases r) (auto simp: decrypt_def decode_resolved_rng)
qed

section \<open>The claims\<close>

text \<open>
  C5. \<^verbatim>\<open>Memo.encrypt\<close> of an absent or empty plaintext, and \<^verbatim>\<open>Memo.decrypt\<close> of an absent
  or empty envelope, return None and leave the state as it was: the trace gains no key
  store query, no draw from the random generator and no codec call, and no exception is
  raised.
\<close>

theorem absent_input_is_noop:
  assumes "\<not> truthy memo"
  shows "encrypt E memo s = (Inr PyNone, s) \<and> decrypt E memo s = (Inr PyNone, s)"
  using assms by (simp add: encrypt_def decrypt_def)

theorem absent_input_is_noop_witness:
  "encrypt toy_env PyNone (toy_state keys_alice (Some alice) (Some bob))
     = (Inr PyNone, toy_state keys_alice (Some alice) (Some bob)) \<and>
   encrypt toy_env (PyStr '''') (toy_state keys_alice (Some alice) (Some bob))
     = (Inr PyNone, toy_state keys_alice (Some alice) (Some bob)) \<and>
   decrypt toy_env PyNone (toy_state keys_bob None None)
     = (Inr PyNone, toy_state keys_bob None None) \<and>
   decrypt toy_env (PyDict []) (toy_state keys_bob None None)
     = (Inr PyNone, toy_state keys_bob None None)"
proof -
  have n: "\<not> truthy PyNone" and e: "\<not> truthy (PyStr '''')" and d: "\<not> truthy (PyDict [])"
    by simp_all
  show ?thesis
    using absent_input_is_noop [OF n, of toy_env "toy_state keys_alice (Some alice) (Some bob)"]
      absent_input_is_noop [OF e, of toy_env "toy_state keys_alice (Some alice) (Some bob)"]
      absent_input_is_noop [OF n, of toy_env "toy_state keys_bob None None"]
      absent_input_is_noop [OF d, of toy_env "toy_state keys_bob None None"]
    by simp
qed

lemma digit_char_in: "d < 10 \<Longrightarrow> digit_char d \<in> set ''0123456789''"
  unfolding digit_char_def by (rule nth_mem) simp

lemma digits_decimal: "set (digits n) \<subseteq> set ''0123456789''"
proof (induction n rule: digits.induct)
  case (1 n)
  show ?case
  proof (cases "n < 10")
    case True
    then show ?thesis
      using digit_char_in [of n] by (subst digits.simps) simp
  next
    case False
    have "digit_char (n mod 10) \<in> set ''0123456789''"
      by (rule digit_char_in) simp
    with False 1 show ?thesis
      by (subst digits.simps) simp
  qed
qed

lemma str_decimal: "0 \<le> n \<Longrightarrow> set (str n) \<subseteq> set ''0123456789''"
  using digits_decimal [of "nat n"] by (simp add: str_def)

lemma encrypt_success:
  assumes "truthy memo" and "encrypt E memo s = (Inr v, s')"
  shows "\<exists>fa ta memo_wif sk pk enc.
           from_account (obj s) = Some fa \<and> to_account (obj s) = Some ta \<and>
           lookup s (PyStr (memo_key fa)) = Inr memo_wif \<and> truthy memo_wif \<and>
           PrivateKey E memo_wif = Inr sk \<and>
           PublicKey E (PyStr (memo_key ta)) (prefix (steem (obj s))) = Inr pk \<and>
           encode_memo E sk pk (PyStr (str (uint (fst (getrandbits64 E (rng s)))))) memo = Inr enc \<and>
           v = PyDict [(''message'', enc),
                       (''nonce'', PyStr (str (uint (fst (getrandbits64 E (rng s)))))),
                       (''from'', PyStr (memo_key fa)),
                       (''to'', PyStr (memo_key ta))] \<and>
           s' = emit Encode (emit (Lookup (PyStr (memo_key fa)))
                  (emit RandBits (s\<lparr>rng := snd (getrandbits64 E (rng s))\<rparr>)))"
  using assms
  by (auto simp: encrypt_def Let_def split: prod.splits option.splits sum.splits if_splits)

lemma toy_encrypt_foobar:
  "encrypt toy_env (PyStr ''foobar'') (toy_state keys_alice (Some alice) (Some bob))
     = (Inr foobar_envelope,
        \<lparr>obj = \<lparr>steem = toy_steem keys_alice, to_account = Some bob, from_account = Some alice\<rparr>,
         rng = 17329630356955254642,
         trace = [RandBits, Lookup (PyStr ''STMa''), Encode]\<rparr>)"
  by (simp add: encrypt_def toy_defs foobar_envelope_def)

text \<open>
  C6. A call of \<^verbatim>\<open>Memo.encrypt\<close> on a non-empty plaintext that returns, returns a
  dictionary with the four entries \<^verbatim>\<open>message\<close>, \<^verbatim>\<open>nonce\<close>, \<^verbatim>\<open>from\<close>, \<^verbatim>\<open>to\<close> and no other:
  \<^verbatim>\<open>from\<close> is the sender account's public memo key and \<^verbatim>\<open>to\<close> the receiver account's
  (the \<^verbatim>\<open>memo_key\<close> entries, not the names), \<^verbatim>\<open>nonce\<close> is the string of the 64 bits drawn
  in this call, the same value that was passed to the codec, and \<^verbatim>\<open>message\<close> is what
  \<^verbatim>\<open>encode_memo\<close> returned for the sender's private key (the key store's answer for the
  sender's public memo key), the receiver's public key, that nonce and the plaintext.
\<close>

theorem encrypt_envelope_fields:
  assumes "truthy memo" and "encrypt E memo s = (Inr v, s')"
  shows "\<exists>fa ta memo_wif sk pk nonce enc.
           from_account (obj s) = Some fa \<and> to_account (obj s) = Some ta \<and>
           lookup s (PyStr (memo_key fa)) = Inr memo_wif \<and>
           PrivateKey E memo_wif = Inr sk \<and>
           PublicKey E (PyStr (memo_key ta)) (prefix (steem (obj s))) = Inr pk \<and>
           nonce = PyStr (str (uint (fst (getrandbits64 E (rng s))))) \<and>
           encode_memo E sk pk nonce memo = Inr enc \<and>
           v = PyDict [(''message'', enc), (''nonce'', nonce),
                       (''from'', PyStr (memo_key fa)), (''to'', PyStr (memo_key ta))]"
  using encrypt_success [OF assms] by blast

theorem encrypt_envelope_fields_witness:
  "truthy (PyStr ''foobar'') \<and>
   fst (encrypt toy_env (PyStr ''foobar'') (toy_state keys_alice (Some alice) (Some bob)))
     = Inr foobar_envelope \<and>
   (\<exists>fa ta memo_wif sk pk nonce enc.
      from_account (obj (toy_state keys_alice (Some alice) (Some bob))) = Some fa \<and>
      to_account (obj (toy_state keys_alice (Some alice) (Some bob))) = Some ta \<and>
      lookup (toy_state keys_alice (Some alice) (Some bob)) (PyStr (memo_key fa)) = Inr memo_wif \<and>
      PrivateKey toy_env memo_wif = Inr sk \<and>
      PublicKey toy_env (PyStr (memo_key ta))
        (prefix (steem (obj (toy_state keys_alice (Some alice) (Some bob))))) = Inr pk \<and>
      nonce = PyStr (str (uint (fst (getrandbits64 toy_env
                (rng (toy_state keys_alice (Some alice) (Some bob))))))) \<and>
      encode_memo toy_env sk pk nonce (PyStr ''foobar'') = Inr enc \<and>
      foobar_envelope = PyDict [(''message'', enc), (''nonce'', nonce),
                                (''from'', PyStr (memo_key fa)), (''to'', PyStr (memo_key ta))])"
proof -
  have t: "truthy (PyStr ''foobar'')"
    by simp
  show ?thesis
    using t toy_encrypt_foobar encrypt_envelope_fields [OF t toy_encrypt_foobar]
    by simp
qed

text \<open>
  C7. The nonce of an envelope that \<^verbatim>\<open>Memo.encrypt\<close> returns is \<^verbatim>\<open>str(n)\<close> for an integer
  \<open>n\<close> with \<open>0 \<le> n < 2\<^sup>6\<^sup>4\<close>, the value drawn from the random generator in this call; the
  string consists of decimal digits, and the call leaves the generator one step further.
\<close>

theorem nonce_is_decimal_64bit:
  assumes "truthy memo" and "encrypt E memo s = (Inr v, s')"
  shows "\<exists>n. 0 \<le> n \<and> n < 2 ^ 64 \<and>
              n = uint (fst (getrandbits64 E (rng s))) \<and>
              getitem v ''nonce'' = Inr (PyStr (str n)) \<and>
              set (str n) \<subseteq> set ''0123456789'' \<and>
              rng s' = snd (getrandbits64 E (rng s))"
proof -
  let ?n = "uint (fst (getrandbits64 E (rng s)))"
  have bounds: "0 \<le> ?n" "?n < 2 ^ 64"
    using uint_lt2p [of "fst (getrandbits64 E (rng s))"] by simp_all
  from encrypt_success [OF assms] have "getitem v ''nonce'' = Inr (PyStr (str ?n))"
    and "rng s' = snd (getrandbits64 E (rng s))"
    by auto
  with bounds str_decimal [OF bounds(1)] show ?thesis
    by blast
qed

theorem nonce_is_decimal_64bit_witness:
  "truthy (PyStr ''foobar'') \<and>
   fst (encrypt toy_env (PyStr ''foobar'') (toy_state keys_alice (Some alice) (Some bob)))
     = Inr foobar_envelope \<and>
   getitem foobar_envelope ''nonce'' = Inr (PyStr ''17329630356955254641'') \<and>
   (\<exists>n. 0 \<le> n \<and> n < 2 ^ 64 \<and>
      n = uint (fst (getrandbits64 toy_env (rng (toy_state keys_alice (Some alice) (Some bob))))) \<and>
      getitem foobar_envelope ''nonce'' = Inr (PyStr (str n)) \<and>
      set (str n) \<subseteq> set ''0123456789'')"
proof -
  have t: "truthy (PyStr ''foobar'')"
    by simp
  have n: "getitem foobar_envelope ''nonce'' = Inr (PyStr ''17329630356955254641'')"
    by (simp add: foobar_envelope_def)
  from nonce_is_decimal_64bit [OF t toy_encrypt_foobar]
  have "\<exists>n. 0 \<le> n \<and> n < 2 ^ 64 \<and>
      n = uint (fst (getrandbits64 toy_env (rng (toy_state keys_alice (Some alice) (Some bob))))) \<and>
      getitem foobar_envelope ''nonce'' = Inr (PyStr (str n)) \<and>
      set (str n) \<subseteq> set ''0123456789''"
    by blast
  with t n toy_encrypt_foobar show ?thesis
    by simp
qed

text \<open>
  C3. What \<^verbatim>\<open>Memo.encrypt\<close> does when the key store signals the miss of the sender's key
  by raising KeyNotFound: the lookup is not inside a \<^verbatim>\<open>try\<close> statement, so KeyNotFound
  leaves \<^verbatim>\<open>encrypt\<close> as it is, and no MissingKeyError is raised.
\<close>

theorem encrypt_KeyNotFound_propagates:
  assumes "truthy memo" and "from_account (obj s) = Some fa"
    and "lookup s (PyStr (memo_key fa)) = Inl KeyNotFound"
  shows "fst (encrypt E memo s) = Inl KeyNotFound"
  using assms by (simp add: encrypt_def Let_def split: prod.splits)

theorem encrypt_KeyNotFound_propagates_witness:
  "truthy (PyStr ''foobar'') \<and>
   from_account (obj (toy_state keys_none (Some alice) (Some bob))) = Some alice \<and>
   lookup (toy_state keys_none (Some alice) (Some bob)) (PyStr (memo_key alice)) = Inl KeyNotFound \<and>
   fst (encrypt toy_env (PyStr ''foobar'') (toy_state keys_none (Some alice) (Some bob)))
     = Inl KeyNotFound"
proof -
  have t: "truthy (PyStr ''foobar'')"
    by simp
  have f: "from_account (obj (toy_state keys_none (Some alice) (Some bob))) = Some alice"
    by (simp add: toy_state_def)
  have l: "lookup (toy_state keys_none (Some alice) (Some bob)) (PyStr (memo_key alice)) = Inl KeyNotFound"
    by (simp add: toy_defs)
  show ?thesis
    using t f l encrypt_KeyNotFound_propagates [OF t f l, of toy_env] by simp
qed

lemma Memo_init_attributes:
  assumes "Memo_init E from_arg to_arg si = Inr m"
  shows "(from_account m = None \<longleftrightarrow> \<not> truthy from_arg) \<and>
         (to_account m = None \<longleftrightarrow> \<not> truthy to_arg)"
  using assms
  by (auto simp: Memo_init_def Let_def split: if_splits sum.splits)

lemma encrypt_no_from_account:
  assumes "truthy memo" and "from_account (obj s) = None"
  shows "fst (encrypt E memo s) = Inl (AttributeError ''from_account'')"
  using assms by (simp add: encrypt_def Let_def split: prod.splits)

lemma encrypt_falsy_key:
  assumes "truthy memo" and "from_account (obj s) = Some fa"
    and "lookup s (PyStr (memo_key fa)) = Inr w" and "\<not> truthy w"
  shows "fst (encrypt E memo s) = Inl (MissingKeyError ''Memo key for %s missing!'' [PyStr (name fa)])"
  using assms by (simp add: encrypt_def Let_def split: prod.splits)

lemma encrypt_no_to_account:
  assumes "truthy memo" and "from_account (obj s) = Some fa" and "to_account (obj s) = None"
    and "lookup s (PyStr (memo_key fa)) = Inr w" and "truthy w" and "PrivateKey E w = Inr sk"
  shows "fst (encrypt E memo s) = Inl (AttributeError ''to_account'')"
  using assms by (simp add: encrypt_def Let_def split: prod.splits)

text \<open>
  C10, as amended. \<^verbatim>\<open>Memo.__init__\<close> sets \<^verbatim>\<open>from_account\<close> and \<^verbatim>\<open>to_account\<close> exactly when
  the corresponding argument is truthy. \<^verbatim>\<open>Memo.encrypt\<close> of a non-empty plaintext on a Memo
  without \<^verbatim>\<open>from_account\<close> raises AttributeError. On a Memo with \<^verbatim>\<open>from_account\<close> and
  without \<^verbatim>\<open>to_account\<close> it raises AttributeError when the key store returns a truthy
  private key for the sender's memo key and \<^verbatim>\<open>PrivateKey\<close> accepts it; when the key store
  returns a falsy value, MissingKeyError is raised first, whether \<^verbatim>\<open>to_account\<close> is set
  or not.
\<close>

theorem encrypt_without_account:
  "(\<forall>m. Memo_init E from_arg to_arg si = Inr m \<longrightarrow>
      (from_account m = None \<longleftrightarrow> \<not> truthy from_arg) \<and>
      (to_account m = None \<longleftrightarrow> \<not> truthy to_arg)) \<and>
   (truthy memo \<and> from_account (obj s) = None \<longrightarrow>
      fst (encrypt E memo s) = Inl (AttributeError ''from_account'')) \<and>
   (\<forall>fa w sk. truthy memo \<and> from_account (obj s) = Some fa \<and> to_account (obj s) = None \<and>
      lookup s (PyStr (memo_key fa)) = Inr w \<and> truthy w \<and> PrivateKey E w = Inr sk \<longrightarrow>
      fst (encrypt E memo s) = Inl (AttributeError ''to_account'')) \<and>
   (\<forall>fa w. truthy memo \<and> from_account (obj s) = Some fa \<and>
      lookup s (PyStr (memo_key fa)) = Inr w \<and> \<not> truthy w \<longrightarrow>
      fst (encrypt E memo s) = Inl (MissingKeyError ''Memo key for %s missing!'' [PyStr (name fa)]))"
  using Memo_init_attributes [of E from_arg to_arg si]
    encrypt_no_from_account [of memo s E]
    encrypt_no_to_account [of memo s _ _ E]
    encrypt_falsy_key [of memo s _ _ E]
  by blast

text \<open>
  The claim C10 as it was stated fails for a Memo built with \<^verbatim>\<open>from_account\<close> only, over a
  key store that answers None: \<^verbatim>\<open>encrypt\<close> raises MissingKeyError, not AttributeError.
\<close>

theorem encrypt_without_to_account_counterexample:
  "Memo_init toy_env (PyStr ''alice'') PyNone (Some (toy_steem keys_answer_None))
     = Inr \<lparr>steem = toy_steem keys_answer_None, to_account = None, from_account = Some alice\<rparr> \<and>
   fst (encrypt toy_env (PyStr ''foobar'') (toy_state keys_answer_None (Some alice) None))
     = Inl (MissingKeyError ''Memo key for %s missing!'' [PyStr ''alice'']) \<and>
   fst (encrypt toy_env (PyStr ''foobar'') (toy_state keys_answer_None (Some alice) None))
     \<noteq> Inl (AttributeError ''to_account'')"
  by (simp add: Memo_init_def encrypt_def toy_defs)

theorem encrypt_without_account_witness:
  "Memo_init toy_env PyNone (PyStr ''bob'') None
     = Inr \<lparr>steem = toy_steem keys_none, to_account = Some bob, from_account = None\<rparr> \<and>
   from_account \<lparr>steem = toy_steem keys_none, to_account = Some bob, from_account = None\<rparr> = None \<and>
   fst (encrypt toy_env (PyStr ''foobar'') (toy_state keys_alice None (Some bob)))
     = Inl (AttributeError ''from_account'') \<and>
   fst (encrypt toy_env (PyStr ''foobar'') (toy_state keys_alice (Some alice) None))
     = Inl (AttributeError ''to_account'') \<and>
   fst (encrypt toy_env (PyStr ''foobar'') (toy_state keys_answer_None (Some alice) None))
     = Inl (MissingKeyError ''Memo key for %s missing!'' [PyStr ''alice''])"
proof -
  have t: "truthy (PyStr ''foobar'')"
    by simp
  have i: "Memo_init toy_env PyNone (PyStr ''bob'') None
     = Inr \<lparr>steem = toy_steem keys_none, to_account = Some bob, from_account = None\<rparr>"
    by (simp add: Memo_init_def toy_env_def toy_Account_def)
  have a: "from_account (obj (toy_state keys_alice None (Some bob))) = None"
    by (simp add: toy_state_def)
  have b: "from_account (obj (toy_state keys_alice (Some alice) None)) = Some alice \<and>
           to_account (obj (toy_state keys_alice (Some alice) None)) = None \<and>
           lookup (toy_state keys_alice (Some alice) None) (PyStr (memo_key alice)) = Inr (PyStr ''5Ja'') \<and>
           truthy (PyStr ''5Ja'') \<and> PrivateKey toy_env (PyStr ''5Ja'') = Inr 3"
    by (simp add: toy_defs)
  have c: "from_account (obj (toy_state keys_answer_None (Some alice) None)) = Some alice \<and>
           lookup (toy_state keys_answer_None (Some alice) None) (PyStr (memo_key alice)) = Inr PyNone \<and>
           \<not> truthy PyNone"
    by (simp add: toy_defs)
  have n: "name alice = ''alice''"
    by (simp add: alice_def)
  from encrypt_without_account [of toy_env PyNone "PyStr ''bob''" None "PyStr ''foobar''"
      "toy_state keys_alice None (Some bob)"] i t a
  have 1: "from_account \<lparr>steem = toy_steem keys_none, to_account = Some bob, from_account = None\<rparr> = None"
    and 2: "fst (encrypt toy_env (PyStr ''foobar'') (toy_state keys_alice None (Some bob)))
     = Inl (AttributeError ''from_account'')"
    by simp_all
  from encrypt_without_account [of toy_env PyNone PyNone None "PyStr ''foobar''"
      "toy_state keys_alice (Some alice) None"] t b
  have 3: "fst (encrypt toy_env (PyStr ''foobar'') (toy_state keys_alice (Some alice) None))
     = Inl (AttributeError ''to_account'')"
    by blast
  from encrypt_without_account [of toy_env PyNone PyNone None "PyStr ''foobar''"
      "toy_state keys_answer_None (Some alice) None"] t c
  have "fst (encrypt toy_env (PyStr ''foobar'') (toy_state keys_answer_None (Some alice) None))
     = Inl (MissingKeyError ''Memo key for %s missing!'' [PyStr (name alice)])"
    by blast
  with n i 1 2 3 show ?thesis
    by simp
qed

lemma is_MissingKeyError_Inl [simp]:
  "is_MissingKeyError (Inl e) \<longleftrightarrow> (\<exists>m a. e = MissingKeyError m a)"
  by (cases e) (simp_all add: is_MissingKeyError_def)

lemma is_MissingKeyError_Inr [simp]: "\<not> is_MissingKeyError (Inr v)"
  by (simp add: is_MissingKeyError_def)

lemma py_get_not_MissingKeyError: "\<not> is_MissingKeyError (py_get memo k)"
  by (cases memo) (simp_all split: option.splits)

lemma resolve_receiver:
  assumes "getitem memo ''to'' = Inr t" and "getitem memo ''from'' = Inr f"
    and "lookup s t = Inr w"
  shows "resolve memo s = (Inr (w, f), emit (Lookup t) s)"
  using assms by (simp add: resolve_def)

lemma resolve_sender:
  assumes "getitem memo ''to'' = Inr t" and "getitem memo ''from'' = Inr f"
    and "lookup s t = Inl KeyNotFound" and "lookup s f = Inr w"
  shows "resolve memo s = (Inr (w, t), emit (Lookup f) (emit (Lookup t) s))"
  using assms by (simp add: resolve_def)

lemma resolve_missing:
  assumes "getitem memo ''to'' = Inr t" and "getitem memo ''from'' = Inr f"
    and "lookup s t = Inl KeyNotFound" and "lookup s f = Inl KeyNotFound"
  shows "resolve memo s =
           (Inl (MissingKeyError ''Non of the required memo keys are installed!Need any of {}''
                   [PyList [t, f]]),
            emit (Lookup f) (emit (Lookup t) s))"
  using assms by (simp add: resolve_def)

lemma resolve_first_raises:
  assumes "getitem memo ''to'' = Inr t" and "lookup s t = Inl e" and "e \<noteq> KeyNotFound"
  shows "resolve memo s = (Inl e, emit (Lookup t) s)"
  using assms by (simp add: resolve_def)

lemma resolve_second_raises:
  assumes "getitem memo ''to'' = Inr t" and "getitem memo ''from'' = Inr f"
    and "lookup s t = Inl KeyNotFound" and "lookup s f = Inl e" and "e \<noteq> KeyNotFound"
  shows "resolve memo s = (Inl e, emit (Lookup f) (emit (Lookup t) s))"
  using assms by (simp add: resolve_def)

lemma resolve_lookups:
  assumes "getitem memo ''to'' = Inr t" and "getitem memo ''from'' = Inr f"
  shows "lookups (trace (snd (resolve memo s)))
           = lookups (trace s) @ (if lookup s t = Inl KeyNotFound then [t, f] else [t])"
  using assms by (simp add: resolve_def Let_def split: sum.splits)

lemma decrypt_lookups:
  assumes "truthy memo"
  shows "lookups (trace (snd (decrypt E memo s))) = lookups (trace (snd (resolve memo s)))"
proof (cases "resolve memo s")
  case (Pair r s1)
  with assms show ?thesis
    by (cases r) (auto simp: decrypt_def decode_resolved_lookups)
qed

lemma decrypt_resolved:
  assumes "truthy memo" and "resolve memo s = (Inr (w, p), s1)"
  shows "decrypt E memo s = decode_resolved E memo w p s1"
  using assms by (simp add: decrypt_def)

lemma decrypt_unresolved:
  assumes "truthy memo" and "resolve memo s = (Inl e, s1)"
  shows "decrypt E memo s = (Inl e, s1)"
  using assms by (simp add: decrypt_def)

lemma decode_resolved_not_MissingKeyError:
  assumes "no_foreign_MissingKeyError E s"
  shows "\<not> is_MissingKeyError (fst (decode_resolved E memo w p s1))"
proof -
  from assms have sk: "\<And>x. \<not> is_MissingKeyError (PrivateKey E x)"
    and pk: "\<And>x y. \<not> is_MissingKeyError (PublicKey E x y)"
    and dec: "\<And>a b n c. \<not> is_MissingKeyError (decode_memo E a b n c)"
    by (simp_all add: no_foreign_MissingKeyError_def)
  show ?thesis
  proof (cases "PrivateKey E w")
    case (Inl e)
    with sk [of w] show ?thesis
      by (simp add: decode_resolved_def)
  next
    case sk_ok: (Inr a)
    show ?thesis
    proof (cases "PublicKey E p (prefix (steem (obj s1)))")
      case (Inl e)
      with sk_ok pk [of p "prefix (steem (obj s1))"] show ?thesis
        by (simp add: decode_resolved_def)
    next
      case pk_ok: (Inr b)
      show ?thesis
        using sk_ok pk_ok dec [of a b]
          py_get_not_MissingKeyError [of memo "''nonce''"]
          py_get_not_MissingKeyError [of memo "''message''"]
        by (auto simp: decode_resolved_def split: sum.splits)
    qed
  qed
qed

lemma decrypt_MissingKeyError_only_if:
  assumes "truthy memo" and "getitem memo ''to'' = Inr t" and "getitem memo ''from'' = Inr f"
    and "no_foreign_MissingKeyError E s" and "is_MissingKeyError (fst (decrypt E memo s))"
  shows "lookup s t = Inl KeyNotFound \<and> lookup s f = Inl KeyNotFound"
proof -
  from assms(4) have ks: "\<And>k. \<not> is_MissingKeyError (lookup s k)"
    by (simp add: no_foreign_MissingKeyError_def)
  show ?thesis
  proof (cases "lookup s t")
    case (Inr w)
    then have "decrypt E memo s = decode_resolved E memo w f (emit (Lookup t) s)"
      using assms(1-3) by (simp add: decrypt_resolved resolve_receiver)
    with assms(4,5) decode_resolved_not_MissingKeyError show ?thesis
      by metis
  next
    case first: (Inl e)
    show ?thesis
    proof (cases "e = KeyNotFound")
      case False
      with first have "decrypt E memo s = (Inl e, emit (Lookup t) s)"
        using assms(1,2) by (simp add: decrypt_unresolved resolve_first_raises)
      with assms(5) ks [of t] first show ?thesis
        by simp
    next
      case True
      with first have knf: "lookup s t = Inl KeyNotFound"
        by simp
      show ?thesis
      proof (cases "lookup s f")
        case (Inr w)
        with knf have "decrypt E memo s
            = decode_resolved E memo w t (emit (Lookup f) (emit (Lookup t) s))"
          using assms(1-3) by (simp add: decrypt_resolved resolve_sender)
        with assms(4,5) decode_resolved_not_MissingKeyError show ?thesis
          by metis
      next
        case second: (Inl e')
        show ?thesis
        proof (cases "e' = KeyNotFound")
          case True
          with knf second show ?thesis
            by simp
        next
          case False
          with knf second have "decrypt E memo s = (Inl e', emit (Lookup f) (emit (Lookup t) s))"
            using assms(1-3) by (simp add: decrypt_unresolved resolve_second_raises)
          with assms(5) ks [of f] second show ?thesis
            by simp
        qed
      qed
    qed
  qed
qed

text \<open>
  C1. For an envelope that has the entries \<^verbatim>\<open>to\<close> and \<^verbatim>\<open>from\<close>, \<^verbatim>\<open>Memo.decrypt\<close> first
  queries the key store for \<^verbatim>\<open>memo["to"]\<close>; it queries it for \<^verbatim>\<open>memo["from"]\<close>, second and
  last, exactly when the first query raised KeyNotFound. A key found by the first query
  is used with \<^verbatim>\<open>memo["from"]\<close> as the public key of the other party, a key found by the
  second query with \<^verbatim>\<open>memo["to"]\<close>. When both queries raise KeyNotFound, MissingKeyError is
  raised with the list of \<^verbatim>\<open>memo["to"]\<close> and \<^verbatim>\<open>memo["from"]\<close> in its message; and when the
  key store, the key constructors and the codec raise no MissingKeyError of their own, a
  MissingKeyError leaves \<^verbatim>\<open>decrypt\<close> only then.
\<close>

theorem decrypt_role_resolution:
  assumes "truthy memo" and "getitem memo ''to'' = Inr t" and "getitem memo ''from'' = Inr f"
  shows "lookups (trace (snd (decrypt E memo s)))
           = lookups (trace s) @ (if lookup s t = Inl KeyNotFound then [t, f] else [t]) \<and>
         (\<forall>w. lookup s t = Inr w \<longrightarrow>
            decrypt E memo s = decode_resolved E memo w f (emit (Lookup t) s)) \<and>
         (\<forall>w. lookup s t = Inl KeyNotFound \<and> lookup s f = Inr w \<longrightarrow>
            decrypt E memo s = decode_resolved E memo w t (emit (Lookup f) (emit (Lookup t) s))) \<and>
         (lookup s t = Inl KeyNotFound \<and> lookup s f = Inl KeyNotFound \<longrightarrow>
            decrypt E memo s =
              (Inl (MissingKeyError ''Non of the required memo keys are installed!Need any of {}''
                      [PyList [t, f]]),
               emit (Lookup f) (emit (Lookup t) s))) \<and>
         (no_foreign_MissingKeyError E s \<and> is_MissingKeyError (fst (decrypt E memo s)) \<longrightarrow>
            lookup s t = Inl KeyNotFound \<and> lookup s f = Inl KeyNotFound)"
proof (intro conjI allI impI)
  show "lookups (trace (snd (decrypt E memo s)))
          = lookups (trace s) @ (if lookup s t = Inl KeyNotFound then [t, f] else [t])"
    using assms by (simp only: decrypt_lookups resolve_lookups)
next
  fix w assume "lookup s t = Inr w"
  with assms show "decrypt E memo s = decode_resolved E memo w f (emit (Lookup t) s)"
    by (simp add: decrypt_resolved resolve_receiver)
next
  fix w assume "lookup s t = Inl KeyNotFound \<and> lookup s f = Inr w"
  with assms show "decrypt E memo s
      = decode_resolved E memo w t (emit (Lookup f) (emit (Lookup t) s))"
    by (simp add: decrypt_resolved resolve_sender)
next
  assume "lookup s t = Inl KeyNotFound \<and> lookup s f = Inl KeyNotFound"
  with assms show "decrypt E memo s =
      (Inl (MissingKeyError ''Non of the required memo keys are installed!Need any of {}''
              [PyList [t, f]]),
       emit (Lookup f) (emit (Lookup t) s))"
    by (simp add: decrypt_unresolved resolve_missing)
next
  assume a: "no_foreign_MissingKeyError E s \<and> is_MissingKeyError (fst (decrypt E memo s))"
  with assms decrypt_MissingKeyError_only_if [of memo t f E s]
  show "lookup s t = Inl KeyNotFound" and "lookup s f = Inl KeyNotFound"
    by blast+
qed

lemma toy_decode_not_MissingKeyError: "\<not> is_MissingKeyError (toy_decode a b n c)"
  by (simp add: toy_decode_def split: pyval.splits list.splits)

lemma toy_no_foreign_MissingKeyError:
  assumes "\<And>k. \<not> is_MissingKeyError (ks k)"
  shows "no_foreign_MissingKeyError toy_env (toy_state ks fa ta)"
  using assms
  by (simp add: no_foreign_MissingKeyError_def lookup_def toy_state_def toy_steem_def toy_env_def
      toy_PrivateKey_def toy_PublicKey_def toy_decode_not_MissingKeyError)

lemma trace_toy_state: "trace (toy_state ks fa ta) = []"
  by (simp add: toy_state_def)

theorem decrypt_role_resolution_witness:
  "fst (decrypt toy_env foobar_envelope (toy_state keys_bob None None)) = Inr (PyStr ''foobar'') \<and>
   lookups (trace (snd (decrypt toy_env foobar_envelope (toy_state keys_bob None None))))
     = [PyStr ''STMb''] \<and>
   fst (decrypt toy_env foobar_envelope (toy_state keys_alice None None)) = Inr (PyStr ''foobar'') \<and>
   lookups (trace (snd (decrypt toy_env foobar_envelope (toy_state keys_alice None None))))
     = [PyStr ''STMb'', PyStr ''STMa''] \<and>
   decrypt toy_env foobar_envelope (toy_state keys_none None None)
     = (Inl (MissingKeyError ''Non of the required memo keys are installed!Need any of {}''
               [PyList [PyStr ''STMb'', PyStr ''STMa'']]),
        emit (Lookup (PyStr ''STMa'')) (emit (Lookup (PyStr ''STMb'')) (toy_state keys_none None None))) \<and>
   no_foreign_MissingKeyError toy_env (toy_state keys_none None None)"
proof -
  have e: "truthy foobar_envelope"
    and t: "getitem foobar_envelope ''to'' = Inr (PyStr ''STMb'')"
    and f: "getitem foobar_envelope ''from'' = Inr (PyStr ''STMa'')"
    by (simp_all add: foobar_envelope_def)
  have bob: "lookup (toy_state keys_bob None None) (PyStr ''STMb'') = Inr (PyStr ''5Jb'')"
    and alice: "lookup (toy_state keys_alice None None) (PyStr ''STMb'') = Inl KeyNotFound"
      "lookup (toy_state keys_alice None None) (PyStr ''STMa'') = Inr (PyStr ''5Ja'')"
    and none: "lookup (toy_state keys_none None None) (PyStr ''STMb'') = Inl KeyNotFound"
      "lookup (toy_state keys_none None None) (PyStr ''STMa'') = Inl KeyNotFound"
    by (simp_all add: lookup_def toy_state_def toy_steem_def keys_bob_def keys_alice_def keys_none_def)
  have dec_bob: "fst (decode_resolved toy_env foobar_envelope (PyStr ''5Jb'') (PyStr ''STMa'')
          (emit (Lookup (PyStr ''STMb'')) (toy_state keys_bob None None))) = Inr (PyStr ''foobar'')"
    and dec_alice: "fst (decode_resolved toy_env foobar_envelope (PyStr ''5Ja'') (PyStr ''STMb'')
          (emit (Lookup (PyStr ''STMa'')) (emit (Lookup (PyStr ''STMb'')) (toy_state keys_alice None None))))
        = Inr (PyStr ''foobar'')"
    by (simp_all add: decode_resolved_def foobar_envelope_def toy_env_def toy_PrivateKey_def
        toy_PublicKey_def toy_decode_def str_def digits.simps digit_char_def)
  note B = decrypt_role_resolution [OF e t f, of toy_env "toy_state keys_bob None None"]
  note A = decrypt_role_resolution [OF e t f, of toy_env "toy_state keys_alice None None"]
  note N = decrypt_role_resolution [OF e t f, of toy_env "toy_state keys_none None None"]
  from B bob have "decrypt toy_env foobar_envelope (toy_state keys_bob None None)
      = decode_resolved toy_env foobar_envelope (PyStr ''5Jb'') (PyStr ''STMa'')
          (emit (Lookup (PyStr ''STMb'')) (toy_state keys_bob None None))"
    by blast
  with dec_bob have 1: "fst (decrypt toy_env foobar_envelope (toy_state keys_bob None None))
      = Inr (PyStr ''foobar'')"
    by (simp only:)
  from B have "lookups (trace (snd (decrypt toy_env foobar_envelope (toy_state keys_bob None None))))
      = lookups (trace (toy_state keys_bob None None)) @
        (if lookup (toy_state keys_bob None None) (PyStr ''STMb'') = Inl KeyNotFound
         then [PyStr ''STMb'', PyStr ''STMa''] else [PyStr ''STMb''])"
    by (rule conjunct1)
  then have 2: "lookups (trace (snd (decrypt toy_env foobar_envelope (toy_state keys_bob None None))))
     = [PyStr ''STMb'']"
    by (simp add: bob trace_toy_state)
  from A alice have "decrypt toy_env foobar_envelope (toy_state keys_alice None None)
      = decode_resolved toy_env foobar_envelope (PyStr ''5Ja'') (PyStr ''STMb'')
          (emit (Lookup (PyStr ''STMa'')) (emit (Lookup (PyStr ''STMb'')) (toy_state keys_alice None None)))"
    by blast
  with dec_alice have 3: "fst (decrypt toy_env foobar_envelope (toy_state keys_alice None None))
      = Inr (PyStr ''foobar'')"
    by (simp only:)
  from A have "lookups (trace (snd (decrypt toy_env foobar_envelope (toy_state keys_alice None None))))
      = lookups (trace (toy_state keys_alice None None)) @
        (if lookup (toy_state keys_alice None None) (PyStr ''STMb'') = Inl KeyNotFound
         then [PyStr ''STMb'', PyStr ''STMa''] else [PyStr ''STMb''])"
    by (rule conjunct1)
  then have 4: "lookups (trace (snd (decrypt toy_env foobar_envelope (toy_state keys_alice None None))))
     = [PyStr ''STMb'', PyStr ''STMa'']"
    by (simp add: alice trace_toy_state)
  from N none have 5: "decrypt toy_env foobar_envelope (toy_state keys_none None None)
     = (Inl (MissingKeyError ''Non of the required memo keys are installed!Need any of {}''
               [PyList [PyStr ''STMb'', PyStr ''STMa'']]),
        emit (Lookup (PyStr ''STMa'')) (emit (Lookup (PyStr ''STMb'')) (toy_state keys_none None None)))"
    by blast
  have 6: "no_foreign_MissingKeyError toy_env (toy_state keys_none None None)"
    by (rule toy_no_foreign_MissingKeyError) (simp add: keys_none_def)
  from 1 2 3 4 5 6 show ?thesis
    by (intro conjI)
qed

text \<open>
  C4. Once the \<^verbatim>\<open>try\<close> statement of \<^verbatim>\<open>Memo.decrypt\<close> has bound a private key, for either
  role, an exception of \<^verbatim>\<open>decode_memo\<close> leaves \<^verbatim>\<open>decrypt\<close> unchanged, whatever it is
  (KeyNotFound included), and the key store is not queried again: the queries of the
  call are those made before the codec was called.
\<close>

theorem decode_failure_propagates:
  assumes "truthy memo"
    and "resolve memo s = (Inr (w, p), s1)"
    and "PrivateKey E w = Inr sk"
    and "PublicKey E p (prefix (steem (obj s))) = Inr pk"
    and "py_get memo ''nonce'' = Inr n"
    and "py_get memo ''message'' = Inr c"
    and "decode_memo E sk pk n c = Inl e"
  shows "decrypt E memo s = (Inl e, emit Decode s1) \<and>
         lookups (trace (snd (decrypt E memo s))) = lookups (trace s1)"
proof -
  from assms(2) have "obj s1 = obj s"
    using resolve_obj [of memo s] by simp
  with assms have "decrypt E memo s = (Inl e, emit Decode s1)"
    by (simp add: decrypt_resolved decode_resolved_def)
  then show ?thesis
    by simp
qed

theorem decode_failure_propagates_witness:
  "resolve tampered_envelope (toy_state keys_both None None)
     = (Inr (PyStr ''5Jb'', PyStr ''STMa''), emit (Lookup (PyStr ''STMb'')) (toy_state keys_both None None)) \<and>
   decode_memo toy_env 5 3 (PyStr ''17329630356955254641'')
      (PyList [PyStr ''16'', PyStr ''17329630356955254641'', PyStr ''foobar''])
     = Inl (Other ''IntegrityError'') \<and>
   decrypt toy_env tampered_envelope (toy_state keys_both None None)
     = (Inl (Other ''IntegrityError''),
        emit Decode (emit (Lookup (PyStr ''STMb'')) (toy_state keys_both None None))) \<and>
   lookups (trace (snd (decrypt toy_env tampered_envelope (toy_state keys_both None None))))
     = [PyStr ''STMb'']"
proof -
  have e: "truthy tampered_envelope"
    by (simp add: tampered_envelope_def)
  have r: "resolve tampered_envelope (toy_state keys_both None None)
     = (Inr (PyStr ''5Jb'', PyStr ''STMa''), emit (Lookup (PyStr ''STMb'')) (toy_state keys_both None None))"
    by (simp add: resolve_def tampered_envelope_def lookup_def toy_state_def toy_steem_def keys_both_def)
  have sk: "PrivateKey toy_env (PyStr ''5Jb'') = Inr 5"
    and pk: "PublicKey toy_env (PyStr ''STMa'') (prefix (steem (obj (toy_state keys_both None None)))) = Inr 3"
    by (simp_all add: toy_env_def toy_PrivateKey_def toy_PublicKey_def)
  have n: "py_get tampered_envelope ''nonce'' = Inr (PyStr ''17329630356955254641'')"
    and c: "py_get tampered_envelope ''message''
      = Inr (PyList [PyStr ''16'', PyStr ''17329630356955254641'', PyStr ''foobar''])"
    by (simp_all add: tampered_envelope_def)
  have d: "decode_memo toy_env 5 3 (PyStr ''17329630356955254641'')
      (PyList [PyStr ''16'', PyStr ''17329630356955254641'', PyStr ''foobar''])
     = Inl (Other ''IntegrityError'')"
    by (simp add: toy_defs)
  from decode_failure_propagates [OF e r sk pk n c d] r d show ?thesis
    by (simp add: toy_state_def)
qed

lemma decrypt_without_to:
  assumes "d \<noteq> []" and "map_of d ''to'' = None"
  shows "decrypt E (PyDict d) s = (Inl (KeyError ''to''), s)"
  using assms by (simp add: decrypt_def resolve_def)

lemma decrypt_without_from:
  assumes "d \<noteq> []" and "map_of d ''to'' = Some t" and "map_of d ''from'' = None"
    and "lookup s t = Inl KeyNotFound \<or> (\<exists>w. lookup s t = Inr w)"
  shows "decrypt E (PyDict d) s = (Inl (KeyError ''from''), emit (Lookup t) s)"
  using assms by (auto simp: decrypt_def resolve_def)

lemma decrypt_reads_with_get:
  assumes "d \<noteq> []" and "resolve (PyDict d) s = (Inr (w, p), s1)"
    and "PrivateKey E w = Inr sk" and "PublicKey E p (prefix (steem (obj s))) = Inr pk"
  shows "decrypt E (PyDict d) s =
           (decode_memo E sk pk
              (case map_of d ''nonce'' of None \<Rightarrow> PyNone | Some v \<Rightarrow> v)
              (case map_of d ''message'' of None \<Rightarrow> PyNone | Some v \<Rightarrow> v),
            emit Decode s1)"
proof -
  from assms(2) have "obj s1 = obj s"
    using resolve_obj [of "PyDict d" s] by simp
  with assms show ?thesis
    by (simp add: decrypt_def decode_resolved_def split: option.splits)
qed

lemma decrypt_lookup_raises:
  assumes "d \<noteq> []" and "map_of d ''to'' = Some t"
    and "lookup s t = Inl e" and "e \<noteq> KeyNotFound"
  shows "decrypt E (PyDict d) s = (Inl e, emit (Lookup t) s)"
  using assms by (simp add: decrypt_def resolve_def)

text \<open>
  C9, as amended. For a non-empty envelope (a dictionary), \<^verbatim>\<open>Memo.decrypt\<close> indexes \<^verbatim>\<open>to\<close>
  and \<^verbatim>\<open>from\<close>: without \<^verbatim>\<open>to\<close> it raises KeyError before any query of the key store;
  with \<^verbatim>\<open>to\<close> and without \<^verbatim>\<open>from\<close> it raises KeyError once the query for \<^verbatim>\<open>memo["to"]\<close>
  has returned or raised KeyNotFound, and any other exception of that query leaves
  \<^verbatim>\<open>decrypt\<close> first, whether \<^verbatim>\<open>from\<close> is there or not. It reads \<^verbatim>\<open>nonce\<close> and \<^verbatim>\<open>message\<close>
  with \<^verbatim>\<open>.get\<close>: once a key is resolved and the key constructors have returned,
  \<^verbatim>\<open>decode_memo\<close> is called with the entries, None standing for a missing one.
\<close>

theorem envelope_field_access:
  assumes "d \<noteq> []"
  shows "(map_of d ''to'' = None \<longrightarrow> decrypt E (PyDict d) s = (Inl (KeyError ''to''), s)) \<and>
         (\<forall>t. map_of d ''to'' = Some t \<and> map_of d ''from'' = None \<and>
              (lookup s t = Inl KeyNotFound \<or> (\<exists>w. lookup s t = Inr w)) \<longrightarrow>
            decrypt E (PyDict d) s = (Inl (KeyError ''from''), emit (Lookup t) s)) \<and>
         (\<forall>t e. map_of d ''to'' = Some t \<and> lookup s t = Inl e \<and> e \<noteq> KeyNotFound \<longrightarrow>
            decrypt E (PyDict d) s = (Inl e, emit (Lookup t) s)) \<and>
         (\<forall>w p s1 sk pk.
            resolve (PyDict d) s = (Inr (w, p), s1) \<and> PrivateKey E w = Inr sk \<and>
            PublicKey E p (prefix (steem (obj s))) = Inr pk \<longrightarrow>
            decrypt E (PyDict d) s =
              (decode_memo E sk pk
                 (case map_of d ''nonce'' of None \<Rightarrow> PyNone | Some v \<Rightarrow> v)
                 (case map_of d ''message'' of None \<Rightarrow> PyNone | Some v \<Rightarrow> v),
               emit Decode s1))"
  using decrypt_without_to [OF assms, of E s]
    decrypt_without_from [OF assms, of _ s E]
    decrypt_lookup_raises [OF assms, of _ s _ E]
    decrypt_reads_with_get [OF assms, of s _ _ _ E]
  by blast

text \<open>
  The claim C9 as it was stated fails for an envelope with \<^verbatim>\<open>to\<close> and without \<^verbatim>\<open>from\<close>
  over a locked wallet: the exception of the key store leaves \<^verbatim>\<open>decrypt\<close>, not a
  KeyError, since \<^verbatim>\<open>memo["from"]\<close> is indexed only after the query.
\<close>

theorem missing_from_locked_wallet_counterexample:
  "getitem envelope_without_from ''from'' = Inl (KeyError ''from'') \<and>
   decrypt toy_env envelope_without_from (toy_state keys_locked None None)
     = (Inl (Other ''WalletLocked''),
        emit (Lookup (PyStr ''STMb'')) (toy_state keys_locked None None)) \<and>
   fst (decrypt toy_env envelope_without_from (toy_state keys_locked None None))
     \<noteq> Inl (KeyError ''from'')"
  by (simp add: decrypt_def resolve_def envelope_without_from_def lookup_def toy_state_def
      toy_steem_def keys_locked_def)

theorem envelope_field_access_witness:
  "decrypt toy_env envelope_without_to (toy_state keys_bob None None)
     = (Inl (KeyError ''to''), toy_state keys_bob None None) \<and>
   decrypt toy_env envelope_without_from (toy_state keys_bob None None)
     = (Inl (KeyError ''from''), emit (Lookup (PyStr ''STMb'')) (toy_state keys_bob None None)) \<and>
   decrypt toy_env envelope_without_from (toy_state keys_none None None)
     = (Inl (KeyError ''from''), emit (Lookup (PyStr ''STMb'')) (toy_state keys_none None None)) \<and>
   decrypt toy_env envelope_without_from (toy_state keys_locked None None)
     = (Inl (Other ''WalletLocked''), emit (Lookup (PyStr ''STMb'')) (toy_state keys_locked None None)) \<and>
   decrypt toy_env envelope_keys_only (toy_state keys_bob None None)
     = (decode_memo toy_env 5 3 PyNone PyNone,
        emit Decode (emit (Lookup (PyStr ''STMb'')) (toy_state keys_bob None None))) \<and>
   decode_memo toy_env 5 3 PyNone PyNone = Inl (Other ''FormatError'')"
proof -
  let ?no_to = "[(''message'', PyList [PyStr ''15'', PyStr ''17329630356955254641'', PyStr ''foobar'']),
                 (''nonce'', PyStr ''17329630356955254641''), (''from'', PyStr ''STMa'')]"
  let ?no_from = "[(''message'', PyList [PyStr ''15'', PyStr ''17329630356955254641'', PyStr ''foobar'']),
                   (''nonce'', PyStr ''17329630356955254641''), (''to'', PyStr ''STMb'')]"
  let ?keys = "[(''from'', PyStr ''STMa''), (''to'', PyStr ''STMb'')]"
  have ne: "?no_to \<noteq> []" "?no_from \<noteq> []" "?keys \<noteq> []"
    by simp_all
  have m1: "map_of ?no_to ''to'' = None"
    and m2: "map_of ?no_from ''to'' = Some (PyStr ''STMb'') \<and> map_of ?no_from ''from'' = None"
    and m3: "(case map_of ?keys ''nonce'' of None \<Rightarrow> PyNone | Some v \<Rightarrow> v) = PyNone"
      "(case map_of ?keys ''message'' of None \<Rightarrow> PyNone | Some v \<Rightarrow> v) = PyNone"
    by simp_all
  have bob: "lookup (toy_state keys_bob None None) (PyStr ''STMb'') = Inr (PyStr ''5Jb'')"
    and none: "lookup (toy_state keys_none None None) (PyStr ''STMb'') = Inl KeyNotFound"
    and locked: "lookup (toy_state keys_locked None None) (PyStr ''STMb'') = Inl (Other ''WalletLocked'')
        \<and> Other ''WalletLocked'' \<noteq> KeyNotFound"
    by (simp_all add: lookup_def toy_state_def toy_steem_def keys_bob_def keys_none_def keys_locked_def)
  have r: "resolve (PyDict ?keys) (toy_state keys_bob None None)
      = (Inr (PyStr ''5Jb'', PyStr ''STMa''), emit (Lookup (PyStr ''STMb'')) (toy_state keys_bob None None))"
    by (rule resolve_receiver) (simp_all add: bob)
  have k: "PrivateKey toy_env (PyStr ''5Jb'') = Inr 5"
    "PublicKey toy_env (PyStr ''STMa'') (prefix (steem (obj (toy_state keys_bob None None)))) = Inr 3"
    by (simp_all add: toy_env_def toy_PrivateKey_def toy_PublicKey_def)
  from envelope_field_access [OF ne(1), of toy_env "toy_state keys_bob None None"] m1
  have 1: "decrypt toy_env (PyDict ?no_to) (toy_state keys_bob None None)
     = (Inl (KeyError ''to''), toy_state keys_bob None None)"
    by blast
  from envelope_field_access [OF ne(2), of toy_env "toy_state keys_bob None None"] m2 bob
  have 2: "decrypt toy_env (PyDict ?no_from) (toy_state keys_bob None None)
     = (Inl (KeyError ''from''), emit (Lookup (PyStr ''STMb'')) (toy_state keys_bob None None))"
    by blast
  from envelope_field_access [OF ne(2), of toy_env "toy_state keys_none None None"] m2 none
  have 3: "decrypt toy_env (PyDict ?no_from) (toy_state keys_none None None)
     = (Inl (KeyError ''from''), emit (Lookup (PyStr ''STMb'')) (toy_state keys_none None None))"
    by blast
  from envelope_field_access [OF ne(2), of toy_env "toy_state keys_locked None None"] m2 locked
  have 4: "decrypt toy_env (PyDict ?no_from) (toy_state keys_locked None None)
     = (Inl (Other ''WalletLocked''), emit (Lookup (PyStr ''STMb'')) (toy_state keys_locked None None))"
    by blast
  from envelope_field_access [OF ne(3), of toy_env "toy_state keys_bob None None"] r k
  have "decrypt toy_env (PyDict ?keys) (toy_state keys_bob None None)
     = (decode_memo toy_env 5 3
          (case map_of ?keys ''nonce'' of None \<Rightarrow> PyNone | Some v \<Rightarrow> v)
          (case map_of ?keys ''message'' of None \<Rightarrow> PyNone | Some v \<Rightarrow> v),
        emit Decode (emit (Lookup (PyStr ''STMb'')) (toy_state keys_bob None None)))"
    by blast
  then have 5: "decrypt toy_env (PyDict ?keys) (toy_state keys_bob None None)
     = (decode_memo toy_env 5 3 PyNone PyNone,
        emit Decode (emit (Lookup (PyStr ''STMb'')) (toy_state keys_bob None None)))"
    by (simp only: m3)
  have 6: "decode_memo toy_env 5 3 PyNone PyNone = Inl (Other ''FormatError'')"
    by (simp add: toy_env_def toy_decode_def)
  from 1 2 3 4 5 6 show ?thesis
    by (simp only: envelope_without_to_def envelope_without_from_def envelope_keys_only_def simp_thms)
qed



lemma encrypt_rng:
  "rng (snd (encrypt E memo s)) = (if truthy memo then snd (getrandbits64 E (rng s)) else rng s)"
  by (simp add: encrypt_def Let_def split: prod.splits option.splits sum.splits)

lemma encrypt_trace:
  "\<exists>evs. trace (snd (encrypt E memo s)) = trace s @ evs \<and>
     (evs = [] \<or> evs = [RandBits] \<or>
      (\<exists>k. evs = [RandBits, Lookup k] \<or> evs = [RandBits, Lookup k, Encode]))"
  by (simp add: encrypt_def Let_def split: prod.splits option.splits sum.splits)

lemma resolve_trace:
  "\<exists>evs. trace (snd (resolve memo s)) = trace s @ evs \<and>
     (evs = [] \<or> (\<exists>t. evs = [Lookup t] \<or> (\<exists>f. evs = [Lookup t, Lookup f])))"
  by (simp add: resolve_def Let_def split: sum.splits)

lemma decode_resolved_trace:
  "trace (snd (decode_resolved E memo w p s)) = trace s \<or>
   trace (snd (decode_resolved E memo w p s)) = trace s @ [Decode]"
  by (simp add: decode_resolved_def split: sum.splits)

lemma decrypt_trace:
  "\<exists>evs. trace (snd (decrypt E memo s)) = trace s @ evs \<and>
     (evs = [] \<or>
      (\<exists>t. evs = [Lookup t] \<or> evs = [Lookup t, Decode] \<or>
         (\<exists>f. evs = [Lookup t, Lookup f] \<or> evs = [Lookup t, Lookup f, Decode])))"
proof (cases "truthy memo")
  case False
  then show ?thesis
    by (simp add: decrypt_def)
next
  case True
  obtain r s1 where r: "resolve memo s = (r, s1)"
    by (cases "resolve memo s")
  from resolve_trace [of memo s] r obtain evs where evs: "trace s1 = trace s @ evs"
    and shape: "evs = [] \<or> (\<exists>t. evs = [Lookup t] \<or> (\<exists>f. evs = [Lookup t, Lookup f]))"
    by auto
  show ?thesis
  proof (cases r)
    case (Inl e)
    with True r have "decrypt E memo s = (Inl e, s1)"
      by (simp add: decrypt_unresolved)
    with evs shape show ?thesis
      by auto
  next
    case (Inr wp)
    obtain w p where wp: "wp = (w, p)"
      by (cases wp)
    with Inr True r have d: "decrypt E memo s = decode_resolved E memo w p s1"
      by (simp add: decrypt_resolved)
    from Inr wp r have "evs \<noteq> []"
      using evs by (auto simp: resolve_def Let_def split: sum.splits if_splits)
    with decode_resolved_trace [of E memo w p s1] d evs shape show ?thesis
      by auto
  qed
qed

text \<open>
  C8, as amended. \<^verbatim>\<open>Memo.encrypt\<close> and \<^verbatim>\<open>Memo.decrypt\<close> leave the Memo object as it was,
  with its fields \<^verbatim>\<open>steem\<close>, \<^verbatim>\<open>from_account\<close> and \<^verbatim>\<open>to_account\<close>, whatever the outcome
  of the call (a value, None or an exception). What \<^verbatim>\<open>decrypt\<close> does outside the object
  is to query the key store, at most twice, and to call the codec, at most once; it
  leaves the random generator alone. \<^verbatim>\<open>encrypt\<close> of a non-empty plaintext first draws
  from the random generator, which advances it by one step, then queries the key store
  at most once and calls the codec at most once.
\<close>

theorem memo_object_unchanged:
  "obj (snd (encrypt E memo s)) = obj s \<and>
   obj (snd (decrypt E memo s)) = obj s \<and>
   rng (snd (decrypt E memo s)) = rng s \<and>
   rng (snd (encrypt E memo s)) = (if truthy memo then snd (getrandbits64 E (rng s)) else rng s) \<and>
   (\<exists>evs. trace (snd (encrypt E memo s)) = trace s @ evs \<and>
      (evs = [] \<or> evs = [RandBits] \<or>
       (\<exists>k. evs = [RandBits, Lookup k] \<or> evs = [RandBits, Lookup k, Encode]))) \<and>
   (\<exists>evs. trace (snd (decrypt E memo s)) = trace s @ evs \<and>
      (evs = [] \<or>
       (\<exists>t. evs = [Lookup t] \<or> evs = [Lookup t, Decode] \<or>
          (\<exists>f. evs = [Lookup t, Lookup f] \<or> evs = [Lookup t, Lookup f, Decode]))))"
  using encrypt_obj [of E memo s] decrypt_obj [of E memo s] decrypt_rng [of E memo s]
    encrypt_rng [of E memo s] encrypt_trace [of E memo s] decrypt_trace [of E memo s]
  by (intro conjI)

text \<open>
  The claim C8 as it was stated, with the key store query as the only interaction, fails
  for \<^verbatim>\<open>encrypt\<close>: the call draws from the random generator and leaves it in another
  state, so that the same call on the same Memo object gives another nonce.
\<close>

theorem encrypt_draws_random_counterexample:
  "trace (snd (encrypt toy_env (PyStr ''foobar'') (toy_state keys_alice (Some alice) (Some bob))))
     = [RandBits, Lookup (PyStr ''STMa''), Encode] \<and>
   rng (toy_state keys_alice (Some alice) (Some bob)) = 17329630356955254641 \<and>
   rng (snd (encrypt toy_env (PyStr ''foobar'') (toy_state keys_alice (Some alice) (Some bob))))
     = 17329630356955254642 \<and>
   fst (encrypt toy_env (PyStr ''foobar'') (toy_state keys_alice (Some alice) (Some bob)))
     = Inr (PyDict [(''message'', PyList [PyStr ''15'', PyStr ''17329630356955254641'', PyStr ''foobar'']),
                    (''nonce'', PyStr ''17329630356955254641''),
                    (''from'', PyStr ''STMa''), (''to'', PyStr ''STMb'')]) \<and>
   fst (encrypt toy_env (PyStr ''foobar'')
          (snd (encrypt toy_env (PyStr ''foobar'') (toy_state keys_alice (Some alice) (Some bob)))))
     = Inr (PyDict [(''message'', PyList [PyStr ''15'', PyStr ''17329630356955254642'', PyStr ''foobar'']),
                    (''nonce'', PyStr ''17329630356955254642''),
                    (''from'', PyStr ''STMa''), (''to'', PyStr ''STMb'')])"
  by (simp add: toy_encrypt_foobar foobar_envelope_def toy_state_def)
    (simp add: encrypt_def toy_defs)

theorem memo_object_unchanged_witness:
  "obj (snd (encrypt toy_env (PyStr ''foobar'') (toy_state keys_none (Some alice) (Some bob))))
     = \<lparr>steem = toy_steem keys_none, to_account = Some bob, from_account = Some alice\<rparr> \<and>
   obj (snd (decrypt toy_env foobar_envelope (toy_state keys_bob None None)))
     = \<lparr>steem = toy_steem keys_bob, to_account = None, from_account = None\<rparr> \<and>
   rng (snd (decrypt toy_env foobar_envelope (toy_state keys_bob None None)))
     = 17329630356955254641 \<and>
   rng (snd (encrypt toy_env (PyStr ''foobar'') (toy_state keys_none (Some alice) (Some bob))))
     = 17329630356955254642"
  using memo_object_unchanged [of toy_env "PyStr ''foobar''" "toy_state keys_none (Some alice) (Some bob)"]
    memo_object_unchanged [of toy_env foobar_envelope "toy_state keys_bob None None"]
  by (simp add: toy_state_def toy_env_def)

end
